theory Spec2Isabelle
  imports Complex_Main "HOL-Library.Multiset" "HOL-Library.Sublist"
    "HOL-Library.List_Lexorder" "HOL-Library.Char_ord"
begin

section \<open>Data model\<close>

text \<open>
  One row of \<^verbatim>\<open>data/processed/customer_segments.csv\<close>, with the columns that
  \<^verbatim>\<open>app.py\<close> reads. The \<^verbatim>\<open>Churned\<close> column is an integer column that the
  code compares with \<^verbatim>\<open>0\<close> and \<^verbatim>\<open>1\<close>; the currency columns are float64
  columns, read here at their real value. A data frame is the list of its rows, in
  row order.
\<close>

record customer =
  CustomerID :: int
  Segment_Name :: string
  Churned :: int
  Recency :: int
  Frequency :: int
  Monetary :: real
  AvgOrderValue :: real

type_synonym dataframe = "customer list"

text \<open>The three options of the sidebar radio \<^verbatim>\<open>"Customer Status"\<close>:
  \<^verbatim>\<open>"All"\<close>, \<^verbatim>\<open>"Active Only"\<close>, \<^verbatim>\<open>"Churned Only"\<close>.\<close>

datatype churn_filter = Status_All | Active_Only | Churned_Only

text \<open>
  A float64 result of a pandas reduction: \<^verbatim>\<open>nan\<close>, or a number. Pandas returns
  \<^verbatim>\<open>nan\<close> (it does not raise) for the mean of an empty column.
\<close>

datatype pyfloat = NaN | Fin real

text \<open>
  The exceptions that the modelled lines raise. Lines 33-271 of the script are one
  \<^verbatim>\<open>try\<close> block: a raise anywhere in it ends the run of the block, and the handler
  of line 273 shows "Error loading dashboard" in place of all that the block had not
  yet shown.
\<close>

datatype py_error = IndexError | ValueError

section \<open>Filter Engine (app.py, lines 55-59)\<close>

text \<open>
  \<^verbatim>\<open>
  filtered_df = df[df['Segment_Name'].isin(segments)].copy()
  if churn_filter == "Active Only":
      filtered_df = filtered_df[filtered_df['Churned'] == 0]
  elif churn_filter == "Churned Only":
      filtered_df = filtered_df[filtered_df['Churned'] == 1]
  \<close>
  Boolean-mask indexing keeps the selected rows in the order of the frame.
\<close>

definition filtered_df :: "dataframe \<Rightarrow> string list \<Rightarrow> churn_filter \<Rightarrow> dataframe" where
  "filtered_df df segments churn_filter =
     (let filtered = filter (\<lambda>r. Segment_Name r \<in> set segments) df
      in if churn_filter = Active_Only then filter (\<lambda>r. Churned r = 0) filtered
         else if churn_filter = Churned_Only then filter (\<lambda>r. Churned r = 1) filtered
         else filtered)"

text \<open>
  The contract of the Filter Engine in the words of the specification: a row is kept
  when its segment label is in the allowed set and its churn flag matches the mode
  predicate, where the mode ALL matches both 0 and 1.
\<close>

fun spec_mode_predicate :: "churn_filter \<Rightarrow> int \<Rightarrow> bool" where
  "spec_mode_predicate Status_All c = (c = 0 \<or> c = 1)"
| "spec_mode_predicate Active_Only c = (c = 0)"
| "spec_mode_predicate Churned_Only c = (c = 1)"

definition spec_filter_engine :: "dataframe \<Rightarrow> string list \<Rightarrow> churn_filter \<Rightarrow> dataframe" where
  "spec_filter_engine df segments mode =
     filter (\<lambda>r. Segment_Name r \<in> set segments \<and> spec_mode_predicate mode (Churned r)) df"

text \<open>The data model's typing of the churn flag: every row carries 0 or 1.\<close>

definition flags_01 :: "dataframe \<Rightarrow> bool" where
  "flags_01 df = list_all (\<lambda>r. Churned r = 0 \<or> Churned r = 1) df"

section \<open>Metrics Aggregator (app.py, lines 65-75)\<close>

text \<open>
  \<^verbatim>\<open>Series.mean()\<close>: the arithmetic mean of a column, \<^verbatim>\<open>nan\<close> when the
  column has no rows. Multiplying \<^verbatim>\<open>nan\<close> by a number gives \<^verbatim>\<open>nan\<close>.
\<close>

definition series_mean :: "real list \<Rightarrow> pyfloat" where
  "series_mean xs = (if xs = [] then NaN else Fin (sum_list xs / real (length xs)))"

definition pyfloat_times :: "pyfloat \<Rightarrow> real \<Rightarrow> pyfloat" where
  "pyfloat_times x c = (case x of NaN \<Rightarrow> NaN | Fin v \<Rightarrow> Fin (v * c))"

text \<open>\<^verbatim>\<open>len(filtered_df)\<close>\<close>

definition total_customers :: "dataframe \<Rightarrow> nat" where
  "total_customers view = length view"

text \<open>\<^verbatim>\<open>churn_rate = filtered_df['Churned'].mean() * 100\<close>\<close>

definition churn_rate :: "dataframe \<Rightarrow> pyfloat" where
  "churn_rate view = pyfloat_times (series_mean (map (\<lambda>r. real_of_int (Churned r)) view)) 100"

text \<open>\<^verbatim>\<open>total_revenue = filtered_df['Monetary'].sum()\<close>\<close>

definition total_revenue :: "dataframe \<Rightarrow> real" where
  "total_revenue view = sum_list (map Monetary view)"

text \<open>\<^verbatim>\<open>avg_value = filtered_df['Monetary'].mean()\<close>\<close>

definition avg_value :: "dataframe \<Rightarrow> pyfloat" where
  "avg_value view = series_mean (map Monetary view)"

section \<open>Revenue by Segment chart (app.py, lines 93-104)\<close>

text \<open>
  \<^verbatim>\<open>segment_revenue = filtered_df.groupby('Segment_Name')['Monetary'].sum().sort_values(ascending=False)\<close>:
  one entry for each segment label that occurs in the view, the groups in the order of
  their labels, each with the sum of its monetary values; then sorted descending by
  that sum.
\<close>

definition segment_revenue :: "dataframe \<Rightarrow> (string \<times> real) list" where
  "segment_revenue view =
     (let groups =
        map (\<lambda>s. (s, sum_list (map Monetary (filter (\<lambda>r. Segment_Name r = s) view))))
          (sort (remdups (map Segment_Name view)))
      in rev (sort_key snd (rev groups)))"

text \<open>
  \<^verbatim>\<open>fig2 = px.bar(x=segment_revenue.index, y=segment_revenue.values, ...)\<close>. When
  the series is empty, both \<^verbatim>\<open>x\<close> and \<^verbatim>\<open>y\<close> are empty sequences; plotly express
  takes an empty sequence for a list of column references and raises ValueError
  ("Cannot accept list of column references or list of columns for both x and y").
  Otherwise the figure is built. The pie chart of lines 84-91 takes no \<^verbatim>\<open>x\<close> and
  \<^verbatim>\<open>y\<close> and is built on every view.
\<close>

definition px_bar :: "(string \<times> real) list \<Rightarrow> py_error + unit" where
  "px_bar series = (if series = [] then Inl ValueError else Inr ())"

section \<open>Model Loader (app.py, lines 22-31 and the gate of line 152)\<close>

text \<open>
  \<^verbatim>\<open>
  def load_model():
      try:
          with open('outputs/models/churn_model.pkl', 'rb') as f:
              model = pickle.load(f)
          with open('outputs/models/scaler.pkl', 'rb') as f:
              scaler = pickle.load(f)
          return model, scaler
      except:
          return None, None
  \<close>
  The environment is a pair of functions: \<open>open_rb\<close> opens a path or raises,
  \<open>pickle_load\<close> deserializes an open file or raises. A raise is \<open>Inl\<close> of the
  exception, whatever it is. A Python object is an \<open>option\<close>: \<open>None\<close> is
  Python's \<^verbatim>\<open>None\<close>, which a pickle may also hold.
\<close>

definition deserialize ::
  "(string \<Rightarrow> 'e + 'f) \<Rightarrow> ('f \<Rightarrow> 'e + 'o option) \<Rightarrow> string \<Rightarrow> 'e + 'o option" where
  "deserialize open_rb pickle_load path =
     (case open_rb path of Inl e \<Rightarrow> Inl e | Inr f \<Rightarrow> pickle_load f)"

text \<open>The body of the \<^verbatim>\<open>try\<close>: the first raise ends it.\<close>

definition load_model_try ::
  "(string \<Rightarrow> 'e + 'f) \<Rightarrow> ('f \<Rightarrow> 'e + 'o option) \<Rightarrow> 'e + ('o option \<times> 'o option)" where
  "load_model_try open_rb pickle_load =
     (case deserialize open_rb pickle_load ''outputs/models/churn_model.pkl'' of
        Inl e \<Rightarrow> Inl e
      | Inr model \<Rightarrow>
          (case deserialize open_rb pickle_load ''outputs/models/scaler.pkl'' of
             Inl e \<Rightarrow> Inl e
           | Inr scaler \<Rightarrow> Inr (model, scaler)))"

text \<open>The bare \<^verbatim>\<open>except:\<close> catches every exception.\<close>

definition load_model ::
  "(string \<Rightarrow> 'e + 'f) \<Rightarrow> ('f \<Rightarrow> 'e + 'o option) \<Rightarrow> 'o option \<times> 'o option" where
  "load_model open_rb pickle_load =
     (case load_model_try open_rb pickle_load of
        Inl e \<Rightarrow> (None, None)
      | Inr loaded \<Rightarrow> loaded)"

text \<open>\<^verbatim>\<open>if model is not None and scaler is not None:\<close>\<close>

definition prediction_enabled :: "'o option \<times> 'o option \<Rightarrow> bool" where
  "prediction_enabled loaded = (case loaded of (model, scaler) \<Rightarrow> model \<noteq> None \<and> scaler \<noteq> None)"

section \<open>Risk Scorer (app.py, lines 176-211)\<close>

text \<open>The six values of the prediction form, under the names of the script's variables.\<close>

record scorer_inputs =
  recency :: real
  frequency :: real
  monetary :: real
  avg_order :: real
  avg_days_between :: real
  is_one_time :: real

text \<open>
  \<^verbatim>\<open>features = np.array([[recency, frequency, monetary, avg_order, avg_days_between, is_one_time]])\<close>:
  a matrix of one row.
\<close>

definition features :: "scorer_inputs \<Rightarrow> real list list" where
  "features inp =
     [[recency inp, frequency inp, monetary inp, avg_order inp, avg_days_between inp, is_one_time inp]]"

text \<open>Indexing \<^verbatim>\<open>a[i]\<close> with a constant \<open>i \<ge> 0\<close>: out of range raises IndexError.\<close>

definition getitem :: "'a list \<Rightarrow> nat \<Rightarrow> py_error + 'a" where
  "getitem xs i = (if i < length xs then Inr (xs ! i) else Inl IndexError)"

text \<open>
  \<^verbatim>\<open>
  features_scaled = scaler.transform(features)
  churn_prob = model.predict_proba(features_scaled)[0][1]
  \<close>
  The two artifacts are opaque: \<open>transform\<close> and \<open>predict_proba\<close> are the methods
  of the loaded scaler and classifier, matrices to matrices.
\<close>

definition churn_prob ::
  "(real list list \<Rightarrow> real list list) \<Rightarrow> (real list list \<Rightarrow> real list list) \<Rightarrow>
   scorer_inputs \<Rightarrow> py_error + real" where
  "churn_prob transform predict_proba inp =
     (let features_scaled = transform (features inp);
          proba = predict_proba features_scaled
      in case getitem proba 0 of
           Inl e \<Rightarrow> Inl e
         | Inr row \<Rightarrow> getitem row 1)"

text \<open>
  The three branches of lines 194-199, by the message each shows:
  \<^verbatim>\<open>st.error("HIGH RISK ...")\<close>, \<^verbatim>\<open>st.warning("MODERATE RISK ...")\<close>,
  \<^verbatim>\<open>st.success("LOW RISK ...")\<close>. The literal \<^verbatim>\<open>0.7\<close> is the float64 nearest to
  7/10, which lies below 7/10, and the next float64 lies above it: a float64 exceeds
  the literal exactly when its value exceeds 7/10. \<^verbatim>\<open>0.5\<close> is exact.
\<close>

datatype risk_tier = HIGH | MODERATE | LOW

definition risk_tier :: "real \<Rightarrow> risk_tier" where
  "risk_tier p = (if p > 0.7 then HIGH else if p > 0.5 then MODERATE else LOW)"

text \<open>
  The four branches of lines 203-211, by the headline of the message each shows:
  "High-Value Customer: Personal outreach from account manager + VIP perks",
  "Standard Intervention: Send 20% discount code + product recommendations",
  "Early Warning: Re-engagement email with personalized offers",
  "Healthy Customer: Continue normal customer journey".
\<close>

datatype action = High_Value_Customer | Standard_Intervention | Early_Warning | Healthy_Customer

definition recommended_action :: "real \<Rightarrow> real \<Rightarrow> action" where
  "recommended_action p m =
     (if p > 0.7 then (if m > 2000 then High_Value_Customer else Standard_Intervention)
      else if p > 0.5 then Early_Warning
      else Healthy_Customer)"

text \<open>
  The prediction tool, lines 152-235. \<open>loaded\<close> is the pair that the loader
  returned, the classifier by its method \<^verbatim>\<open>predict_proba\<close> and the scaler by its
  method \<^verbatim>\<open>transform\<close>; \<open>request\<close> holds the values of the form in the run
  in which the button is pressed, and is \<open>None\<close> in every other run. The tool shows
  nothing of a prediction when an artifact is missing or the button is not pressed;
  else it shows the tier and the action of the churn probability, or raises what
  reading the probability raises.
\<close>

definition prediction_tool ::
  "(real list list \<Rightarrow> real list list) option \<times> (real list list \<Rightarrow> real list list) option \<Rightarrow>
   scorer_inputs option \<Rightarrow> py_error + (risk_tier \<times> action) option" where
  "prediction_tool loaded request =
     (case loaded of (model, scaler) \<Rightarrow>
        (case model of
           None \<Rightarrow> Inr None
         | Some predict_proba \<Rightarrow>
             (case scaler of
                None \<Rightarrow> Inr None
              | Some transform \<Rightarrow>
                  (case request of
                     None \<Rightarrow> Inr None
                   | Some inp \<Rightarrow>
                       (case churn_prob transform predict_proba inp of
                          Inl e \<Rightarrow> Inl e
                        | Inr p \<Rightarrow>
                            Inr (Some (risk_tier p, recommended_action p (monetary inp))))))))"

section \<open>At-Risk Reporter (app.py, lines 242-262)\<close>

text \<open>
  \<^verbatim>\<open>sort_values('Monetary', ascending=False)\<close>: pandas reverses the column, sorts it
  ascending and reverses the result. With a stable sort, equal values keep the order of
  the frame; the default sort kind fixes no order among equal values, and no theorem
  below depends on it.
\<close>

definition sort_values_desc :: "dataframe \<Rightarrow> dataframe" where
  "sort_values_desc df = rev (sort_key Monetary (rev df))"

text \<open>
  \<^verbatim>\<open>at_risk = filtered_df[filtered_df['Churned'] == 1].sort_values('Monetary', ascending=False).head(20)\<close>
\<close>

definition at_risk :: "dataframe \<Rightarrow> dataframe" where
  "at_risk view = take 20 (sort_values_desc (filter (\<lambda>r. Churned r = 1) view))"

text \<open>
  The displayed table: six of the columns, renamed, the two currency columns rendered
  by \<^verbatim>\<open>f"\<pounds>{x:,.2f}"\<close>, here the parameter \<open>fmt\<close>.
\<close>

record display_row =
  Customer_ID :: int
  Segment :: string
  Days_Since_Purchase :: int
  Total_Orders :: int
  Total_Spent :: string
  Avg_Order_Value :: string

definition display_df :: "(real \<Rightarrow> string) \<Rightarrow> dataframe \<Rightarrow> display_row list" where
  "display_df fmt rows =
     map (\<lambda>r. \<lparr>Customer_ID = CustomerID r, Segment = Segment_Name r,
               Days_Since_Purchase = Recency r, Total_Orders = Frequency r,
               Total_Spent = fmt (Monetary r), Avg_Order_Value = fmt (AvgOrderValue r)\<rparr>) rows"

text \<open>
  \<^verbatim>\<open>csv = at_risk.to_csv(index=False)\<close> writes a header line and then one line for
  each row of \<^verbatim>\<open>at_risk\<close>, all columns, in order. The model keeps the rows written.
\<close>

definition csv :: "dataframe \<Rightarrow> dataframe" where
  "csv view = at_risk view"

text \<open>
  Lines 244-262, what the section shows in a run that reaches line 242: the table
  with the download button ("Download Full At-Risk Customers List") when
  \<^verbatim>\<open>len(at_risk) > 0\<close>, else the message "No at-risk customers in current filter!".
  Whether a run reaches line 242 is \<open>dashboard\<close>, below.
\<close>

datatype at_risk_section =
  Table_And_Download "display_row list" dataframe
  | No_At_Risk_Customers

definition at_risk_section :: "(real \<Rightarrow> string) \<Rightarrow> dataframe \<Rightarrow> at_risk_section" where
  "at_risk_section fmt view =
     (if length (at_risk view) > 0
      then Table_And_Download (display_df fmt (at_risk view)) (csv view)
      else No_At_Risk_Customers)"

section \<open>The page (app.py, the try block of lines 33-271 and its handler)\<close>

text \<open>
  What the page shows at the place of the at-risk section, for a filtered view, the
  loaded artifacts and the prediction request of the run. The stages run in the order
  of the script: the revenue chart (line 96), the prediction tool (lines 152-235), the
  at-risk section (lines 242-262). A raise in a stage skips the later ones, and the
  handler of line 273 shows the error.
\<close>

datatype page = Error_Loading_Dashboard py_error | At_Risk_Section at_risk_section

definition dashboard ::
  "(real \<Rightarrow> string) \<Rightarrow> dataframe \<Rightarrow>
   (real list list \<Rightarrow> real list list) option \<times> (real list list \<Rightarrow> real list list) option \<Rightarrow>
   scorer_inputs option \<Rightarrow> page" where
  "dashboard fmt view loaded request =
     (case px_bar (segment_revenue view) of
        Inl e \<Rightarrow> Error_Loading_Dashboard e
      | Inr fig2 \<Rightarrow>
          (case prediction_tool loaded request of
             Inl e \<Rightarrow> Error_Loading_Dashboard e
           | Inr shown \<Rightarrow> At_Risk_Section (at_risk_section fmt view)))"

section \<open>Concrete inputs\<close>

text \<open>
  The table of the specification's end-to-end scenario: three rows, segments A, B, A,
  churn flags 1, 0, 1, monetary 100, 200, 300.
\<close>

definition table3 :: dataframe where
  "table3 =
    [\<lparr>CustomerID = 1, Segment_Name = ''A'', Churned = 1, Recency = 120, Frequency = 2,
      Monetary = 100, AvgOrderValue = 50\<rparr>,
     \<lparr>CustomerID = 2, Segment_Name = ''B'', Churned = 0, Recency = 10, Frequency = 4,
      Monetary = 200, AvgOrderValue = 50\<rparr>,
     \<lparr>CustomerID = 3, Segment_Name = ''A'', Churned = 1, Recency = 95, Frequency = 3,
      Monetary = 300, AvgOrderValue = 100\<rparr>]"

text \<open>
  A view of 25 churned customers, the scenario of the specification for the At-Risk
  Reporter: customer \<open>i\<close> has spent \<open>100 * i\<close>.
\<close>

definition churned_customer :: "int \<Rightarrow> customer" where
  "churned_customer i =
     \<lparr>CustomerID = i, Segment_Name = ''A'', Churned = 1, Recency = 120, Frequency = 1,
      Monetary = real_of_int (100 * i), AvgOrderValue = real_of_int (100 * i)\<rparr>"

definition view25 :: dataframe where
  "view25 = map churned_customer [1..25]"

text \<open>
  A scaler that divides every feature by 10 and a classifier whose probability of
  churn is the third scaled feature over 125, applied to each row of the matrix.
\<close>

definition mock_transform :: "real list list \<Rightarrow> real list list" where
  "mock_transform X = map (map (\<lambda>x. x / 10)) X"

definition mock_predict_proba :: "real list list \<Rightarrow> real list list" where
  "mock_predict_proba X = map (\<lambda>row. [1 - row ! 2 / 125, row ! 2 / 125]) X"

text \<open>
  An environment in which the classifier file exists and unpickles, and the scaler
  file is missing.
\<close>

definition open_model_only :: "string \<Rightarrow> string + nat" where
  "open_model_only path =
     (if path = ''outputs/models/churn_model.pkl'' then Inr 7 else Inl ''FileNotFoundError'')"

definition pickle_load_nat :: "nat \<Rightarrow> string + nat option" where
  "pickle_load_nat f = Inr (Some f)"

section \<open>Filter Engine: properties\<close>

text \<open>The two assignments of the source amount to one pass with a combined predicate.\<close>

lemma filtered_df_filter:
  "filtered_df df segments mode =
     filter (\<lambda>r. Segment_Name r \<in> set segments \<and>
                 (case mode of Status_All \<Rightarrow> True
                  | Active_Only \<Rightarrow> Churned r = 0
                  | Churned_Only \<Rightarrow> Churned r = 1)) df"
  by (cases mode) (simp_all add: filtered_df_def)

lemma spec_filter_engine_flags:
  assumes "flags_01 df"
  shows "spec_filter_engine df segments mode = filtered_df df segments mode"
proof -
  have "\<And>r. r \<in> set df \<Longrightarrow> Churned r = 0 \<or> Churned r = 1"
    using assms by (simp add: flags_01_def list_all_iff)
  then show ?thesis
    unfolding spec_filter_engine_def filtered_df_filter
    by (cases mode) (auto intro!: filter_cong)
qed

lemma flags_01_table3: "flags_01 table3"
  by (simp add: flags_01_def table3_def)

text \<open>
  C5. On every table whose churn flags are 0 or 1, for every list of allowed segment
  labels and every status mode, the filtered view is exactly the rows of the table whose
  segment label is allowed and whose churn flag matches the mode predicate of the
  specification (ALL matches 0 and 1), in the order of the table: it is a subsequence
  of the table. With no segment selected the view is empty, whatever the table and the
  mode.
\<close>

theorem filter_engine_contract:
  "flags_01 df \<Longrightarrow>
     filtered_df df segments mode = spec_filter_engine df segments mode \<and>
     subseq (filtered_df df segments mode) df \<and>
     filtered_df df [] mode = []"
  by (simp add: spec_filter_engine_flags) (simp add: filtered_df_filter)

theorem filter_engine_contract_witness:
  "flags_01 table3 \<and>
   filtered_df table3 [''A''] Status_All = spec_filter_engine table3 [''A''] Status_All \<and>
   filtered_df table3 [''A''] Status_All = [table3 ! 0, table3 ! 2] \<and>
   subseq (filtered_df table3 [''A''] Status_All) table3 \<and>
   filtered_df table3 [] Status_All = []"
proof -
  have h: "flags_01 table3"
    by (rule flags_01_table3)
  have "filtered_df table3 [''A''] Status_All = [table3 ! 0, table3 ! 2]"
    by (simp add: filtered_df_def table3_def)
  with h filter_engine_contract [OF h, of "[''A'']" Status_All] show ?thesis
    by fast
qed

lemma mset_filter_flags:
  "list_all (\<lambda>r. Churned r = 0 \<or> Churned r = 1) xs \<Longrightarrow>
   mset xs = mset (filter (\<lambda>r. Churned r = 0) xs) + mset (filter (\<lambda>r. Churned r = (1::int)) xs)"
  by (induction xs) auto

text \<open>
  C6. On every table whose churn flags are 0 or 1 and for every list of allowed segment
  labels, the view of mode ALL holds each row as often as the views of ACTIVE_ONLY and
  CHURNED_ONLY together (nothing omitted, nothing added), its rows are the union of
  theirs, and no row is in both of them.
\<close>

theorem all_is_disjoint_union:
  "flags_01 df \<Longrightarrow>
     mset (filtered_df df segments Status_All) =
       mset (filtered_df df segments Active_Only) + mset (filtered_df df segments Churned_Only) \<and>
     set (filtered_df df segments Status_All) =
       set (filtered_df df segments Active_Only) \<union> set (filtered_df df segments Churned_Only) \<and>
     set (filtered_df df segments Active_Only) \<inter> set (filtered_df df segments Churned_Only) = {}"
proof -
  assume "flags_01 df"
  then have f: "list_all (\<lambda>r. Churned r = 0 \<or> Churned r = 1)
                  (filter (\<lambda>r. Segment_Name r \<in> set segments) df)"
    by (simp add: flags_01_def list_all_iff)
  have m: "mset (filtered_df df segments Status_All) =
       mset (filtered_df df segments Active_Only) + mset (filtered_df df segments Churned_Only)"
    using mset_filter_flags [OF f] by (simp add: filtered_df_def)
  have s: "set (filtered_df df segments Status_All) =
       set (filtered_df df segments Active_Only) \<union> set (filtered_df df segments Churned_Only)"
    using arg_cong [OF m, of set_mset] by simp
  have d: "set (filtered_df df segments Active_Only) \<inter> set (filtered_df df segments Churned_Only) = {}"
    by (auto simp: filtered_df_def)
  from m s d show ?thesis by simp
qed

theorem all_is_disjoint_union_witness:
  "flags_01 table3 \<and>
   mset (filtered_df table3 [''A'', ''B''] Status_All) =
     mset (filtered_df table3 [''A'', ''B''] Active_Only) +
     mset (filtered_df table3 [''A'', ''B''] Churned_Only) \<and>
   filtered_df table3 [''A'', ''B''] Active_Only = [table3 ! 1] \<and>
   filtered_df table3 [''A'', ''B''] Churned_Only = [table3 ! 0, table3 ! 2] \<and>
   set (filtered_df table3 [''A'', ''B''] Active_Only) \<inter>
     set (filtered_df table3 [''A'', ''B''] Churned_Only) = {}"
proof -
  have h: "flags_01 table3"
    by (rule flags_01_table3)
  have "filtered_df table3 [''A'', ''B''] Active_Only = [table3 ! 1]"
    and "filtered_df table3 [''A'', ''B''] Churned_Only = [table3 ! 0, table3 ! 2]"
    by (simp_all add: filtered_df_def table3_def)
  with h all_is_disjoint_union [OF h, of "[''A'', ''B'']"] show ?thesis
    by fast
qed

section \<open>At-Risk Reporter and the page: properties\<close>



lemma length_sort_values_desc: "length (sort_values_desc df) = length df"
  by (simp add: sort_values_desc_def)

lemma length_at_risk:
  "length (at_risk view) = min 20 (length (filter (\<lambda>r. Churned r = 1) view))"
  by (simp add: at_risk_def length_sort_values_desc)



text \<open>The revenue series has a group exactly when the view has a row.\<close>

lemma segment_revenue_Nil: "segment_revenue view = [] \<longleftrightarrow> view = []"
proof -
  have "sort (remdups (map Segment_Name view)) = [] \<longleftrightarrow> view = []"
    by (metis length_0_conv length_sort map_is_Nil_conv remdups_eq_nil_iff)
  moreover have "\<And>xs :: (string \<times> real) list. rev (sort_key snd (rev xs)) = [] \<longleftrightarrow> xs = []"
    by (metis length_0_conv length_sort rev_is_Nil_conv)
  ultimately show ?thesis
    by (simp add: segment_revenue_def Let_def del: sort_key_simps)
qed

lemma px_bar_segment_revenue:
  "px_bar (segment_revenue view) = (if view = [] then Inl ValueError else Inr ())"
  by (simp add: px_bar_def segment_revenue_Nil)


text \<open>A run on a view with a row, whose prediction tool does not raise, reaches line 242.\<close>

lemma dashboard_reaches_section:
  "view \<noteq> [] \<Longrightarrow> prediction_tool loaded request = Inr shown \<Longrightarrow>
   dashboard fmt view loaded request = At_Risk_Section (at_risk_section fmt view)"
  by (simp add: dashboard_def px_bar_segment_revenue)

lemma prediction_tool_no_request: "prediction_tool loaded None = Inr None"
  by (simp add: prediction_tool_def split: prod.splits option.splits)







lemma filter_view25: "filter (\<lambda>r. Churned r = 1) view25 = view25"
  by (simp add: view25_def churned_customer_def)

lemma length_view25: "length view25 = 25"
  by (simp add: view25_def)

lemma view25_not_Nil: "view25 \<noteq> []"
  using length_view25 by auto

lemma at_risk_view25: "at_risk view25 = map churned_customer (rev [6..25])"
  unfolding at_risk_def filter_view25
  by (simp add: view25_def sort_values_desc_def churned_customer_def upto_rec1)

text \<open>
  C1. The specification has the export hold every row of the view with churn flag 1,
  all 25 of them for a view with 25 churned customers, and the download button is
  labelled "Download Full At-Risk Customers List". The code serializes the frame that
  \<^verbatim>\<open>head(20)\<close> has already cut: on the view of 25 churned customers the run
  reaches the section, the section shows the table and the download, the export has 20
  rows, and the churned customer with the smallest monetary value is in the view and
  not in the export.
\<close>

theorem csv_is_truncated:
  "length (filter (\<lambda>r. Churned r = 1) view25) = 25 \<and>
   at_risk_section fmt view25 =
     Table_And_Download (display_df fmt (at_risk view25)) (csv view25) \<and>
   dashboard fmt view25 (None, None) None =
     At_Risk_Section (Table_And_Download (display_df fmt (at_risk view25)) (csv view25)) \<and>
   length (csv view25) = 20 \<and>
   churned_customer 1 \<in> set view25 \<and> Churned (churned_customer 1) = 1 \<and>
   churned_customer 1 \<notin> set (csv view25)"
proof -
  have a: "length (filter (\<lambda>r. Churned r = 1) view25) = 25"
    by (simp add: filter_view25 length_view25)
  have b: "length (at_risk view25) = 20"
    by (simp add: length_at_risk a)
  have c: "churned_customer 1 \<in> set view25"
    by (simp add: view25_def)
  have d: "churned_customer 1 \<notin> set (csv view25)"
    by (auto simp: csv_def at_risk_view25 churned_customer_def)
  have s: "at_risk_section fmt view25 =
     Table_And_Download (display_df fmt (at_risk view25)) (csv view25)"
    using b by (simp add: at_risk_section_def)
  have e: "dashboard fmt view25 (None, None) None =
     At_Risk_Section (Table_And_Download (display_df fmt (at_risk view25)) (csv view25))"
    using dashboard_reaches_section
            [OF view25_not_Nil prediction_tool_no_request, of fmt "(None, None)"] s
    by simp
  have f: "Churned (churned_customer 1) = 1"
    by (simp add: churned_customer_def)
  from a s e b c d f show ?thesis
    by (simp add: csv_def)
qed

section \<open>Metrics Aggregator: properties\<close>

text \<open>
  C2, as the specification states it, fails: on the empty view the churn rate and the
  average value are not 0.
\<close>

theorem metrics_empty_view_counterexample:
  "churn_rate [] \<noteq> Fin 0 \<and> avg_value [] \<noteq> Fin 0"
  by (simp add: churn_rate_def avg_value_def series_mean_def pyfloat_times_def)

text \<open>
  C2, amended. On the empty view, and so on the view of every table and every status
  mode when no segment is selected, the count is 0 and the total revenue is 0, and the
  churn rate and the average value are nan, the mean of an empty column: a value, no
  division error.
\<close>

theorem metrics_empty_view:
  "filtered_df df [] mode = [] \<and>
   total_customers [] = 0 \<and> total_revenue [] = 0 \<and>
   churn_rate [] = NaN \<and> avg_value [] = NaN"
  by (simp add: filtered_df_filter total_customers_def total_revenue_def churn_rate_def
      avg_value_def series_mean_def pyfloat_times_def)

section \<open>Risk Scorer: properties\<close>

text \<open>
  C3. For every churn probability \<open>p\<close>, the tier is HIGH exactly when \<open>p > 0.70\<close>,
  MODERATE exactly when \<open>0.50 < p \<le> 0.70\<close> and LOW exactly when \<open>p \<le> 0.50\<close>; the
  probability 0.70 gives MODERATE and 0.50 gives LOW.
\<close>

theorem risk_tier_boundaries:
  "(risk_tier p = HIGH \<longleftrightarrow> p > 0.7) \<and>
   (risk_tier p = MODERATE \<longleftrightarrow> 0.5 < p \<and> p \<le> 0.7) \<and>
   (risk_tier p = LOW \<longleftrightarrow> p \<le> 0.5) \<and>
   risk_tier 0.7 = MODERATE \<and> risk_tier 0.5 = LOW"
  by (simp add: risk_tier_def)

text \<open>
  C4. For every churn probability \<open>p\<close> and monetary value \<open>m\<close>, the recommended
  action is the high-value personal outreach exactly when the tier is HIGH and
  \<open>m > 2000\<close>, the standard discount code exactly when the tier is HIGH and
  \<open>m \<le> 2000\<close>, the re-engagement email exactly when the tier is MODERATE, and the
  normal journey exactly when the tier is LOW; in the tier HIGH, 2000 gets the standard
  action and 2001 the high-value one.
\<close>

theorem recommended_action_by_tier:
  "(recommended_action p m = High_Value_Customer \<longleftrightarrow> risk_tier p = HIGH \<and> m > 2000) \<and>
   (recommended_action p m = Standard_Intervention \<longleftrightarrow> risk_tier p = HIGH \<and> m \<le> 2000) \<and>
   (recommended_action p m = Early_Warning \<longleftrightarrow> risk_tier p = MODERATE) \<and>
   (recommended_action p m = Healthy_Customer \<longleftrightarrow> risk_tier p = LOW) \<and>
   recommended_action 0.8 2000 = Standard_Intervention \<and>
   recommended_action 0.8 2001 = High_Value_Customer"
  by (simp add: recommended_action_def risk_tier_def)

text \<open>
  C7. For every scaler, every classifier and every six inputs, the churn probability is
  read at row 0, column 1 of the classifier's output on the scaler's output on the
  one-row matrix (recency, frequency, monetary, average order value, average days
  between purchases, one-time-buyer flag), in that order; when that output is one row
  of two probabilities, the churn probability is the second.
\<close>

theorem churn_prob_pipeline:
  "churn_prob transform predict_proba
      \<lparr>recency = r, frequency = f, monetary = m, avg_order = a, avg_days_between = d,
       is_one_time = t\<rparr> =
     (case getitem (predict_proba (transform [[r, f, m, a, d, t]])) 0 of
        Inl e \<Rightarrow> Inl e
      | Inr row \<Rightarrow> getitem row 1) \<and>
   (predict_proba (transform [[r, f, m, a, d, t]]) = [[p0, p1]] \<longrightarrow>
      churn_prob transform predict_proba
        \<lparr>recency = r, frequency = f, monetary = m, avg_order = a, avg_days_between = d,
         is_one_time = t\<rparr> = Inr p1)"
  by (simp add: churn_prob_def features_def getitem_def)

theorem churn_prob_pipeline_witness:
  "mock_predict_proba (mock_transform [[30, 5, 1000, 200, 30, 0]]) = [[1/5, 4/5]] \<and>
   churn_prob mock_transform mock_predict_proba
     \<lparr>recency = 30, frequency = 5, monetary = 1000, avg_order = 200, avg_days_between = 30,
      is_one_time = 0\<rparr> = Inr (4/5)"
proof -
  have h: "mock_predict_proba (mock_transform [[30, 5, 1000, 200, 30, 0]]) = [[1/5, 4/5]]"
    by (simp add: mock_predict_proba_def mock_transform_def)
  with churn_prob_pipeline [of mock_transform mock_predict_proba 30 5 1000 200 30 0 "1/5" "4/5"]
  show ?thesis by fast
qed

section \<open>Model Loader: properties\<close>

text \<open>
  C8. Whatever opening and unpickling the two files do, the loader returns a pair: when
  the deserialization of the classifier or of the scaler raises, whatever the
  exception, the pair is (None, None). The prediction tool is enabled exactly when
  both halves of the returned pair are not None, which is exactly when both
  deserializations returned an object other than None.
\<close>

theorem load_model_soft_degrade:
  "((\<exists>e. deserialize open_rb pickle_load ''outputs/models/churn_model.pkl'' = Inl e) \<or>
    (\<exists>e. deserialize open_rb pickle_load ''outputs/models/scaler.pkl'' = Inl e) \<longrightarrow>
      load_model open_rb pickle_load = (None, None)) \<and>
   (prediction_enabled (load_model open_rb pickle_load) \<longleftrightarrow>
      fst (load_model open_rb pickle_load) \<noteq> None \<and>
      snd (load_model open_rb pickle_load) \<noteq> None) \<and>
   (prediction_enabled (load_model open_rb pickle_load) \<longleftrightarrow>
      (\<exists>model scaler.
         deserialize open_rb pickle_load ''outputs/models/churn_model.pkl'' = Inr (Some model) \<and>
         deserialize open_rb pickle_load ''outputs/models/scaler.pkl'' = Inr (Some scaler)))"
  by (auto simp: load_model_def load_model_try_def prediction_enabled_def split: sum.splits)

theorem load_model_soft_degrade_witness:
  "deserialize open_model_only pickle_load_nat ''outputs/models/churn_model.pkl'' = Inr (Some 7) \<and>
   deserialize open_model_only pickle_load_nat ''outputs/models/scaler.pkl'' =
     Inl ''FileNotFoundError'' \<and>
   load_model open_model_only pickle_load_nat = (None, None) \<and>
   \<not> prediction_enabled (load_model open_model_only pickle_load_nat)"
proof -
  have m: "deserialize open_model_only pickle_load_nat ''outputs/models/churn_model.pkl'' =
             Inr (Some 7)"
    by (simp add: deserialize_def open_model_only_def pickle_load_nat_def)
  have s: "deserialize open_model_only pickle_load_nat ''outputs/models/scaler.pkl'' =
             Inl ''FileNotFoundError''"
    by (simp add: deserialize_def open_model_only_def)
  from load_model_soft_degrade [of open_model_only pickle_load_nat] s
  have l: "load_model open_model_only pickle_load_nat = (None, None)"
    by blast
  with load_model_soft_degrade [of open_model_only pickle_load_nat]
  have "\<not> prediction_enabled (load_model open_model_only pickle_load_nat)"
    by simp
  with m s l show ?thesis by simp
qed

end
